theory Spec2Isabelle
  imports Main "HOL-Library.Word"
begin

section \<open>X.509 extensions: a model of \<open>extensions.py\<close>\<close>

text \<open>
  The module validates extension values at construction time and offers two lookups on a
  container of extensions. Every constructor is modelled as a function into
  \<open>error + value\<close>: \<open>Inl\<close> is the exception the Python raises, \<open>Inr\<close> the object that
  \<open>__init__\<close> leaves behind. Private attributes become record fields, properties become
  functions on the record.
\<close>

subsection \<open>Errors and dynamically typed arguments\<close>

text \<open>
  Modelled from the spec: \<open>ObjectIdentifier\<close> is imported from \<open>cryptography.x509.oid\<close>;
  the spec describes it as an opaque dotted-number identifier whose equality is by
  dotted value.
\<close>

datatype ObjectIdentifier = ObjectIdentifier (dotted_string: string)

text \<open>
  The exceptions raised in the module. \<open>TypeError\<close> and \<open>ValueError\<close> carry the message
  of the \<open>raise\<close>; \<open>ExtensionNotFound\<close> carries its \<open>oid\<close> attribute (its message is
  formatted from the identifier's printed form and is left out).
\<close>

datatype error =
    TypeError string
  | ValueError string
  | ExtensionNotFound ObjectIdentifier

fun is_TypeError :: "error + 'a \<Rightarrow> bool" where
  "is_TypeError (Inl (TypeError m)) = True"
| "is_TypeError r = False"

fun is_ValueError :: "error + 'a \<Rightarrow> bool" where
  "is_ValueError (Inl (ValueError m)) = True"
| "is_ValueError r = False"

text \<open>
  An argument that the code tests with \<open>isinstance\<close>: \<open>Inst x\<close> is an instance of the
  expected class, \<open>Foreign t\<close> is an object of any other class, of which the code can
  only observe the truth value \<open>t\<close>.
\<close>

datatype 'a dyn = Inst 'a | Foreign bool

fun isinstance :: "'a dyn \<Rightarrow> bool" where
  "isinstance (Inst x) = True"
| "isinstance (Foreign t) = False"

text \<open>
  Python truth values: \<open>truth b x\<close> is \<open>bool(x)\<close>, where \<open>b\<close> gives the truth value of
  an instance of the expected class. A list is true when it is not empty.
\<close>

fun truth :: "('a \<Rightarrow> bool) \<Rightarrow> 'a dyn \<Rightarrow> bool" where
  "truth b (Inst x) = b x"
| "truth b (Foreign t) = t"

definition nonempty :: "'a list \<Rightarrow> bool" where
  "nonempty xs = (xs \<noteq> [])"

subsection \<open>KeyUsage\<close>

text \<open>
  \<open>KeyUsage.__init__\<close> makes no \<open>isinstance\<close> check: it tests the truth values of its
  arguments and stores the arguments as they are. An argument is therefore a Python
  value, of which the model has the booleans, \<open>None\<close> and the integers. \<open>py_truth\<close> is
  \<open>bool(x)\<close> and \<open>py_eq\<close> is \<open>x == y\<close> on them (\<open>True == 1\<close> and \<open>False == 0\<close> hold
  in Python; \<open>None\<close> equals itself only).
\<close>

datatype pyval = PyNone | PyBool bool | PyInt int

fun py_truth :: "pyval \<Rightarrow> bool" where
  "py_truth PyNone = False"
| "py_truth (PyBool b) = b"
| "py_truth (PyInt n) = (n \<noteq> 0)"

fun py_eq :: "pyval \<Rightarrow> pyval \<Rightarrow> bool" where
  "py_eq PyNone PyNone = True"
| "py_eq (PyBool a) (PyBool b) = (a = b)"
| "py_eq (PyInt m) (PyInt n) = (m = n)"
| "py_eq (PyBool a) (PyInt n) = (n = (if a then 1 else 0))"
| "py_eq (PyInt n) (PyBool a) = (n = (if a then 1 else 0))"
| "py_eq PyNone (PyBool b) = False"
| "py_eq PyNone (PyInt n) = False"
| "py_eq (PyBool b) PyNone = False"
| "py_eq (PyInt n) PyNone = False"

record KeyUsage =
  digital_signature :: pyval
  content_commitment :: pyval
  key_encipherment :: pyval
  data_encipherment :: pyval
  key_agreement :: pyval
  key_cert_sign :: pyval
  crl_sign :: pyval
  stored_encipher_only :: pyval
  stored_decipher_only :: pyval

text \<open>\<open>KeyUsage.__init__\<close>; the fields are \<open>self._digital_signature\<close> and so on.\<close>

definition KeyUsage_init ::
  "pyval \<Rightarrow> pyval \<Rightarrow> pyval \<Rightarrow> pyval \<Rightarrow> pyval \<Rightarrow> pyval \<Rightarrow> pyval \<Rightarrow> pyval \<Rightarrow> pyval
     \<Rightarrow> error + KeyUsage"
where
  "KeyUsage_init digital_signature' content_commitment' key_encipherment'
      data_encipherment' key_agreement' key_cert_sign' crl_sign' encipher_only' decipher_only' =
    (if \<not> py_truth key_agreement' \<and> (py_truth encipher_only' \<or> py_truth decipher_only') then
       Inl (ValueError
         ''encipher_only and decipher_only can only be true when key_agreement is true'')
     else
       Inr \<lparr> digital_signature = digital_signature',
             content_commitment = content_commitment',
             key_encipherment = key_encipherment',
             data_encipherment = data_encipherment',
             key_agreement = key_agreement',
             key_cert_sign = key_cert_sign',
             crl_sign = crl_sign',
             stored_encipher_only = encipher_only',
             stored_decipher_only = decipher_only' \<rparr>)"

text \<open>The two guarded properties.\<close>

definition encipher_only :: "KeyUsage \<Rightarrow> error + pyval" where
  "encipher_only self =
    (if \<not> py_truth (key_agreement self) then
       Inl (ValueError ''encipher_only is undefined unless key_agreement is true'')
     else Inr (stored_encipher_only self))"

definition decipher_only :: "KeyUsage \<Rightarrow> error + pyval" where
  "decipher_only self =
    (if \<not> py_truth (key_agreement self) then
       Inl (ValueError ''decipher_only is undefined unless key_agreement is true'')
     else Inr (stored_decipher_only self))"

text \<open>
  \<open>KeyUsage.__eq__\<close> on two instances of the class: seven public properties and the two
  private fields \<open>_encipher_only\<close>, \<open>_decipher_only\<close>, each pair compared with \<open>==\<close>.
\<close>

definition KeyUsage_eq :: "KeyUsage \<Rightarrow> KeyUsage \<Rightarrow> bool" where
  "KeyUsage_eq self other =
    (py_eq (digital_signature self) (digital_signature other)
     \<and> py_eq (content_commitment self) (content_commitment other)
     \<and> py_eq (key_encipherment self) (key_encipherment other)
     \<and> py_eq (data_encipherment self) (data_encipherment other)
     \<and> py_eq (key_agreement self) (key_agreement other)
     \<and> py_eq (key_cert_sign self) (key_cert_sign other)
     \<and> py_eq (crl_sign self) (crl_sign other)
     \<and> py_eq (stored_encipher_only self) (stored_encipher_only other)
     \<and> py_eq (stored_decipher_only self) (stored_decipher_only other))"

text \<open>
  What a caller can observe of a \<open>KeyUsage\<close> through its properties alone: the seven
  plain properties and the outcome (value or exception) of the two guarded ones.
\<close>

definition observable ::
  "KeyUsage \<Rightarrow> (pyval \<times> pyval \<times> pyval \<times> pyval \<times> pyval \<times> pyval \<times> pyval)
     \<times> (error + pyval) \<times> (error + pyval)"
where
  "observable self =
    ((digital_signature self, content_commitment self, key_encipherment self,
      data_encipherment self, key_agreement self, key_cert_sign self, crl_sign self),
     encipher_only self, decipher_only self)"

subsection \<open>The Extensions container\<close>

text \<open>
  The classes of the module that derive from \<open>ExtensionType\<close>. None of them derives
  from another, so \<open>isinstance(v, cls)\<close> for one of these classes holds exactly when
  \<open>cls\<close> is the class of \<open>v\<close>.
\<close>

datatype ext_class =
    class_CRLNumber
  | class_AuthorityKeyIdentifier
  | class_SubjectKeyIdentifier
  | class_AuthorityInformationAccess
  | class_SubjectInformationAccess
  | class_BasicConstraints
  | class_DeltaCRLIndicator
  | class_CRLDistributionPoints
  | class_FreshestCRL
  | class_PolicyConstraints
  | class_CertificatePolicies
  | class_ExtendedKeyUsage
  | class_OCSPNoCheck
  | class_PrecertPoison
  | class_TLSFeature
  | class_InhibitAnyPolicy
  | class_KeyUsage
  | class_NameConstraints
  | class_SubjectAlternativeName
  | class_IssuerAlternativeName
  | class_CertificateIssuer
  | class_CRLReason
  | class_InvalidityDate
  | class_PrecertificateSignedCertificateTimestamps
  | class_SignedCertificateTimestamps
  | class_OCSPNonce
  | class_IssuingDistributionPoint
  | class_UnrecognizedExtension

text \<open>
  An extension value as the container sees it: its class and its contents, which the
  lookups never inspect.
\<close>

datatype 'p ExtensionType = ExtensionType (class_of: ext_class) (payload: 'p)

record 'p Extension =
  oid :: ObjectIdentifier
  critical :: bool
  ext_value :: "'p ExtensionType"

text \<open>\<open>Extensions.__init__\<close> stores \<open>list(extensions)\<close> in \<open>self._extensions\<close>.\<close>

datatype 'p Extensions = Extensions (extensions_list: "'p Extension list")

text \<open>
  The loop of \<open>get_extension_for_oid\<close> over \<open>iter(self._extensions)\<close>: it returns at the
  first extension whose \<open>oid\<close> is the one sought and raises after the last.
\<close>

fun for_oid_loop :: "'p Extension list \<Rightarrow> ObjectIdentifier \<Rightarrow> error + 'p Extension" where
  "for_oid_loop [] oid' = Inl (ExtensionNotFound oid')"
| "for_oid_loop (ext # rest) oid' =
     (if oid ext = oid' then Inr ext else for_oid_loop rest oid')"

definition get_extension_for_oid ::
  "'p Extensions \<Rightarrow> ObjectIdentifier \<Rightarrow> error + 'p Extension"
where
  "get_extension_for_oid self oid' = for_oid_loop (extensions_list self) oid'"

text \<open>
  The loop of \<open>get_extension_for_class\<close>. The identifier in the exception is the class
  attribute \<open>extclass.oid\<close>; these attributes are constants of the imported registry
  \<open>ExtensionOID\<close>, taken here as the parameter \<open>class_oid\<close>.
\<close>

fun for_class_loop ::
  "(ext_class \<Rightarrow> ObjectIdentifier) \<Rightarrow> 'p Extension list \<Rightarrow> ext_class \<Rightarrow> error + 'p Extension"
where
  "for_class_loop class_oid [] extclass = Inl (ExtensionNotFound (class_oid extclass))"
| "for_class_loop class_oid (ext # rest) extclass =
     (if class_of (ext_value ext) = extclass then Inr ext
      else for_class_loop class_oid rest extclass)"

definition get_extension_for_class ::
  "(ext_class \<Rightarrow> ObjectIdentifier) \<Rightarrow> 'p Extensions \<Rightarrow> ext_class \<Rightarrow> error + 'p Extension"
where
  "get_extension_for_class class_oid self extclass =
    (if extclass = class_UnrecognizedExtension then
       Inl (TypeError
         ''UnrecognizedExtension can't be used with get_extension_for_class because more than one instance of the class may be present.'')
     else for_class_loop class_oid (extensions_list self) extclass)"

subsection \<open>General names\<close>

text \<open>
  Modelled from the spec: the general-name classes are imported from
  \<open>cryptography.x509.general_name\<close>. The spec gives the closed set of variants with
  their payloads: three string-valued names, a directory name (a \<open>Name\<close>, kept abstract
  as the type parameter), a registered identifier, an IP address or network, and
  \<open>OtherName\<close> with a type identifier and raw bytes. An IP value is one of the four
  classes of the standard \<open>ipaddress\<close> module; a network has a prefix length.
\<close>

datatype ip_value =
    IPv4Address "32 word"
  | IPv6Address "128 word"
  | IPv4Network "32 word" nat
  | IPv6Network "128 word" nat

datatype 'n GeneralName =
    DNSName string
  | RFC822Name string
  | UniformResourceIdentifier string
  | DirectoryName 'n
  | RegisteredID ObjectIdentifier
  | IPAddress ip_value
  | OtherName ObjectIdentifier "8 word list"

datatype gn_class =
    class_DNSName
  | class_RFC822Name
  | class_UniformResourceIdentifier
  | class_DirectoryName
  | class_RegisteredID
  | class_IPAddress
  | class_OtherName

fun gn_class_of :: "'n GeneralName \<Rightarrow> gn_class" where
  "gn_class_of (DNSName s) = class_DNSName"
| "gn_class_of (RFC822Name s) = class_RFC822Name"
| "gn_class_of (UniformResourceIdentifier s) = class_UniformResourceIdentifier"
| "gn_class_of (DirectoryName n) = class_DirectoryName"
| "gn_class_of (RegisteredID i) = class_RegisteredID"
| "gn_class_of (IPAddress a) = class_IPAddress"
| "gn_class_of (OtherName t v) = class_OtherName"

text \<open>What the \<open>value\<close> property of a general name returns.\<close>

datatype 'n gn_payload =
    StrValue string
  | NameValue 'n
  | OidValue ObjectIdentifier
  | IPValue ip_value
  | BytesValue "8 word list"

fun gn_value :: "'n GeneralName \<Rightarrow> 'n gn_payload" where
  "gn_value (DNSName s) = StrValue s"
| "gn_value (RFC822Name s) = StrValue s"
| "gn_value (UniformResourceIdentifier s) = StrValue s"
| "gn_value (DirectoryName n) = NameValue n"
| "gn_value (RegisteredID i) = OidValue i"
| "gn_value (IPAddress a) = IPValue a"
| "gn_value (OtherName t v) = BytesValue v"

text \<open>
  The instances among the elements of a list. After a successful
  \<open>all(isinstance(x, C) for x in xs)\<close> these are all the elements, in order.
\<close>

fun instances :: "'a dyn list \<Rightarrow> 'a list" where
  "instances [] = []"
| "instances (Inst x # xs) = x # instances xs"
| "instances (Foreign t # xs) = instances xs"

datatype 'n GeneralNames = GeneralNames (general_names: "'n GeneralName list")

definition GeneralNames_init :: "'n GeneralName dyn list \<Rightarrow> error + 'n GeneralNames" where
  "GeneralNames_init general_names' =
    (if \<not> list_all isinstance general_names' then
       Inl (TypeError
         ''Every item in the general_names list must be an object conforming to the GeneralName interface'')
     else Inr (GeneralNames (instances general_names')))"

text \<open>
  \<open>get_values_for_type\<close> returns a list of payloads, or of whole elements when the type
  asked for is \<open>OtherName\<close>.
\<close>

datatype 'n gn_item = Payload "'n gn_payload" | Element "'n GeneralName"

definition get_values_for_type :: "'n GeneralNames \<Rightarrow> gn_class \<Rightarrow> 'n gn_item list" where
  "get_values_for_type self type' =
    (let objs = filter (\<lambda>i. gn_class_of i = type') (general_names self)
     in if type' \<noteq> class_OtherName then map (\<lambda>i. Payload (gn_value i)) objs
        else map Element objs)"

subsection \<open>TLSFeature\<close>

datatype TLSFeatureType = status_request | status_request_v2

record TLSFeature =
  features :: "TLSFeatureType list"

definition TLSFeature_init :: "TLSFeatureType dyn list \<Rightarrow> error + TLSFeature" where
  "TLSFeature_init features' =
    (if \<not> list_all isinstance features' \<or> length features' = 0 then
       Inl (TypeError ''features must be a list of elements from the TLSFeatureType enum'')
     else Inr \<lparr> features = instances features' \<rparr>)"

subsection \<open>Reason flags and distribution points\<close>

datatype ReasonFlags =
    unspecified
  | key_compromise
  | ca_compromise
  | affiliation_changed
  | superseded
  | cessation_of_operation
  | certificate_hold
  | privilege_withdrawn
  | aa_compromise
  | remove_from_crl

text \<open>
  A \<open>reasons\<close> argument: \<open>None\<close>, a frozenset (whose elements may or may not be
  \<open>ReasonFlags\<close> members), or an object of another class. Its truth value is that of
  Python: a frozenset is true when it is not empty.
\<close>

type_synonym reasons_arg = "ReasonFlags dyn set dyn option"

fun reasons_truth :: "reasons_arg \<Rightarrow> bool" where
  "reasons_truth None = False"
| "reasons_truth (Some (Inst s)) = (s \<noteq> {})"
| "reasons_truth (Some (Foreign t)) = t"

text \<open>
  The condition of the first check on the reason set:
  \<open>reasons and (not isinstance(reasons, frozenset) or
     not all(isinstance(x, ReasonFlags) for x in reasons))\<close>.
\<close>

fun reasons_type_violation :: "reasons_arg \<Rightarrow> bool" where
  "reasons_type_violation None = False"
| "reasons_type_violation (Some (Inst s)) = (s \<noteq> {} \<and> \<not> (\<forall>x\<in>s. isinstance x))"
| "reasons_type_violation (Some (Foreign t)) = t"

text \<open>
  The condition of the second check:
  \<open>reasons and (ReasonFlags.unspecified in reasons or ReasonFlags.remove_from_crl in reasons)\<close>.
  It is evaluated only after the first check has passed, so a non-frozenset reaches it
  only when it is false, and the conjunction is false without looking inside.
\<close>

fun reasons_value_violation :: "reasons_arg \<Rightarrow> bool" where
  "reasons_value_violation None = False"
| "reasons_value_violation (Some (Inst s)) =
     (s \<noteq> {} \<and> (Inst unspecified \<in> s \<or> Inst remove_from_crl \<in> s))"
| "reasons_value_violation (Some (Foreign t)) = False"

text \<open>
  \<open>x is not None and P(x)\<close>; with \<open>P\<close> a truth value this is Python's \<open>bool(x)\<close>
  for an optional argument.
\<close>

fun not_None_and :: "('a \<Rightarrow> bool) \<Rightarrow> 'a option \<Rightarrow> bool" where
  "not_None_and P None = False"
| "not_None_and P (Some x) = P x"

text \<open>
  \<open>RelativeDistinguishedName\<close> is imported from \<open>cryptography.x509.name\<close>: the type of its
  instances is the parameter \<open>'r\<close>, and their truth value the parameter \<open>rdn_bool\<close> of
  the constructors that test it.
\<close>

record ('n, 'r) DistributionPoint =
  dp_full_name :: "'n GeneralName list option"
  dp_relative_name :: "'r dyn option"
  dp_reasons :: reasons_arg
  dp_crl_issuer :: "'n GeneralName list option"

text \<open>
  \<open>DistributionPoint.__init__\<close>. The argument \<open>full_name\<close> is a list here, so
  \<open>list(full_name)\<close> is the same list and has the same truth value.
\<close>

definition DistributionPoint_init ::
  "('r \<Rightarrow> bool) \<Rightarrow> 'n GeneralName dyn list option \<Rightarrow> 'r dyn option \<Rightarrow> reasons_arg
     \<Rightarrow> 'n GeneralName dyn list option \<Rightarrow> error + ('n, 'r) DistributionPoint"
where
  "DistributionPoint_init rdn_bool full_name relative_name reasons crl_issuer =
    (if not_None_and nonempty full_name \<and> not_None_and (truth rdn_bool) relative_name then
       Inl (ValueError
         ''You cannot provide both full_name and relative_name, at least one must be None.'')
     else if not_None_and (\<lambda>xs. \<not> list_all isinstance xs) full_name then
       Inl (TypeError ''full_name must be a list of GeneralName objects'')
     else if not_None_and (truth rdn_bool) relative_name
             \<and> \<not> not_None_and isinstance relative_name then
       Inl (TypeError ''relative_name must be a RelativeDistinguishedName'')
     else if not_None_and (\<lambda>xs. \<not> list_all isinstance xs) crl_issuer then
       Inl (TypeError ''crl_issuer must be None or a list of general names'')
     else if reasons_type_violation reasons then
       Inl (TypeError ''reasons must be None or frozenset of ReasonFlags'')
     else if reasons_value_violation reasons then
       Inl (ValueError
         ''unspecified and remove_from_crl are not valid reasons in a DistributionPoint'')
     else if reasons_truth reasons \<and> \<not> not_None_and nonempty crl_issuer
             \<and> \<not> (not_None_and nonempty full_name
                    \<or> not_None_and (truth rdn_bool) relative_name) then
       Inl (ValueError
         ''You must supply crl_issuer, full_name, or relative_name when reasons is not None'')
     else
       Inr \<lparr> dp_full_name = map_option instances full_name,
             dp_relative_name = relative_name,
             dp_reasons = reasons,
             dp_crl_issuer = map_option instances crl_issuer \<rparr>)"

record ('n, 'r) IssuingDistributionPoint =
  only_contains_user_certs :: "bool dyn"
  only_contains_ca_certs :: "bool dyn"
  indirect_crl :: "bool dyn"
  only_contains_attribute_certs :: "bool dyn"
  only_some_reasons :: reasons_arg
  idp_full_name :: "'n GeneralName dyn list option"
  idp_relative_name :: "'r dyn option"

text \<open>
  \<open>IssuingDistributionPoint.__init__\<close>. The four flags are tested with
  \<open>isinstance(_, bool)\<close>; \<open>crl_constraints\<close> is the list of their truth values.
\<close>

definition IssuingDistributionPoint_init ::
  "('r \<Rightarrow> bool) \<Rightarrow> 'n GeneralName dyn list option \<Rightarrow> 'r dyn option \<Rightarrow> bool dyn \<Rightarrow> bool dyn
     \<Rightarrow> reasons_arg \<Rightarrow> bool dyn \<Rightarrow> bool dyn \<Rightarrow> error + ('n, 'r) IssuingDistributionPoint"
where
  "IssuingDistributionPoint_init rdn_bool full_name relative_name only_contains_user_certs'
      only_contains_ca_certs' only_some_reasons' indirect_crl' only_contains_attribute_certs' =
    (if reasons_type_violation only_some_reasons' then
       Inl (TypeError ''only_some_reasons must be None or frozenset of ReasonFlags'')
     else if reasons_value_violation only_some_reasons' then
       Inl (ValueError
         ''unspecified and remove_from_crl are not valid reasons in an IssuingDistributionPoint'')
     else if \<not> (isinstance only_contains_user_certs' \<and> isinstance only_contains_ca_certs'
                 \<and> isinstance indirect_crl' \<and> isinstance only_contains_attribute_certs') then
       Inl (TypeError
         ''only_contains_user_certs, only_contains_ca_certs, indirect_crl and only_contains_attribute_certs must all be boolean.'')
     else
       let crl_constraints =
             [truth id only_contains_user_certs', truth id only_contains_ca_certs',
              truth id indirect_crl', truth id only_contains_attribute_certs']
       in if length (filter id crl_constraints) > 1 then
            Inl (ValueError
              ''Only one of the following can be set to True: only_contains_user_certs, only_contains_ca_certs, indirect_crl, only_contains_attribute_certs'')
          else if \<not> list_ex id
                    [truth id only_contains_user_certs', truth id only_contains_ca_certs',
                     truth id indirect_crl', truth id only_contains_attribute_certs',
                     not_None_and nonempty full_name,
                     not_None_and (truth rdn_bool) relative_name,
                     reasons_truth only_some_reasons'] then
            Inl (ValueError
              ''Cannot create empty extension: if only_contains_user_certs, only_contains_ca_certs, indirect_crl, and only_contains_attribute_certs are all False, then either full_name, relative_name, or only_some_reasons must have a value.'')
          else
            Inr \<lparr> only_contains_user_certs = only_contains_user_certs',
                  only_contains_ca_certs = only_contains_ca_certs',
                  indirect_crl = indirect_crl',
                  only_contains_attribute_certs = only_contains_attribute_certs',
                  only_some_reasons = only_some_reasons',
                  idp_full_name = full_name,
                  idp_relative_name = relative_name \<rparr>)"

subsection \<open>NameConstraints\<close>

fun is_network :: "ip_value \<Rightarrow> bool" where
  "is_network (IPv4Network a p) = True"
| "is_network (IPv6Network a p) = True"
| "is_network (IPv4Address a) = False"
| "is_network (IPv6Address a) = False"

text \<open>
  The condition inside \<open>_validate_ip_name\<close>:
  \<open>isinstance(name, IPAddress) and
     not isinstance(name.value, (ipaddress.IPv4Network, ipaddress.IPv6Network))\<close>.
\<close>

fun bare_ip_name :: "'n GeneralName dyn \<Rightarrow> bool" where
  "bare_ip_name (Inst (IPAddress v)) = (\<not> is_network v)"
| "bare_ip_name x = False"

definition validate_ip_name :: "'n GeneralName dyn list \<Rightarrow> error option" where
  "validate_ip_name tree =
    (if list_ex bare_ip_name tree then
       Some (TypeError
         ''IPAddress name constraints must be an IPv4Network or IPv6Network object'')
     else None)"

text \<open>
  The block that \<open>NameConstraints.__init__\<close> runs on each of its two arguments when it
  is not \<open>None\<close>; the two copies differ in their messages only.
\<close>

definition subtrees_block ::
  "string \<Rightarrow> string \<Rightarrow> 'n GeneralName dyn list option \<Rightarrow> error option"
where
  "subtrees_block empty_msg type_msg subtrees =
    (case subtrees of
       None \<Rightarrow> None
     | Some tree \<Rightarrow>
         if tree = [] then Some (ValueError empty_msg)
         else if \<not> list_all isinstance tree then Some (TypeError type_msg)
         else validate_ip_name tree)"

record 'n NameConstraints =
  permitted_subtrees :: "'n GeneralName list option"
  excluded_subtrees :: "'n GeneralName list option"

definition NameConstraints_init ::
  "'n GeneralName dyn list option \<Rightarrow> 'n GeneralName dyn list option
     \<Rightarrow> error + 'n NameConstraints"
where
  "NameConstraints_init permitted_subtrees' excluded_subtrees' =
    (case subtrees_block ''permitted_subtrees must be a non-empty list or None''
            ''permitted_subtrees must be a list of GeneralName objects or None''
            permitted_subtrees' of
       Some e \<Rightarrow> Inl e
     | None \<Rightarrow>
        (case subtrees_block ''excluded_subtrees must be a non-empty list or None''
                ''excluded_subtrees must be a list of GeneralName objects or None''
                excluded_subtrees' of
           Some e \<Rightarrow> Inl e
         | None \<Rightarrow>
            if permitted_subtrees' = None \<and> excluded_subtrees' = None then
              Inl (ValueError
                ''At least one of permitted_subtrees and excluded_subtrees must not be None'')
            else
              Inr \<lparr> permitted_subtrees = map_option instances permitted_subtrees',
                    excluded_subtrees = map_option instances excluded_subtrees' \<rparr>))"

text \<open>
  Not part of the module: the replacement used to state what happens when a bare address
  is replaced by a network. An IPAddress name with a bare address becomes the same name
  with a network of prefix length \<open>p\<close>; every other element is unchanged.
\<close>

fun with_network :: "nat \<Rightarrow> 'n GeneralName dyn \<Rightarrow> 'n GeneralName dyn" where
  "with_network p (Inst (IPAddress (IPv4Address a))) = Inst (IPAddress (IPv4Network a p))"
| "with_network p (Inst (IPAddress (IPv6Address a))) = Inst (IPAddress (IPv6Network a p))"
| "with_network p x = x"

section \<open>Verified properties\<close>

subsection \<open>KeyUsage\<close>

lemma KeyUsage_init_Inr:
  "KeyUsage_init ds cc ke de ka kcs cs eo dc = Inr ku \<Longrightarrow>
     ku = \<lparr> digital_signature = ds, content_commitment = cc, key_encipherment = ke,
            data_encipherment = de, key_agreement = ka, key_cert_sign = kcs, crl_sign = cs,
            stored_encipher_only = eo, stored_decipher_only = dc \<rparr>
     \<and> (py_truth ka \<or> (\<not> py_truth eo \<and> \<not> py_truth dc))"
  by (auto simp: KeyUsage_init_def split: if_splits)

text \<open>
  C1. Construction of a KeyUsage fails (ValueError) whenever key_agreement is false and
  encipher_only or decipher_only is true. With key_agreement true construction succeeds
  and the two accessors return exactly the constructor's arguments. On an instance that
  was constructed with key_agreement false, both accessors fail; the exception the code
  raises for this state error is a ValueError. True and false are Python truth values,
  so the statement covers arguments that are not booleans as well.
\<close>

theorem KeyUsage_construction_and_accessors:
  "(\<not> py_truth ka \<and> (py_truth eo \<or> py_truth dc) \<longrightarrow>
      KeyUsage_init ds cc ke de ka kcs cs eo dc =
        Inl (ValueError
          ''encipher_only and decipher_only can only be true when key_agreement is true''))
   \<and> (py_truth ka \<longrightarrow>
        (\<exists>ku. KeyUsage_init ds cc ke de ka kcs cs eo dc = Inr ku
            \<and> encipher_only ku = Inr eo \<and> decipher_only ku = Inr dc))
   \<and> (\<not> py_truth ka \<longrightarrow>
        (\<forall>ku. KeyUsage_init ds cc ke de ka kcs cs eo dc = Inr ku \<longrightarrow>
            encipher_only ku =
              Inl (ValueError ''encipher_only is undefined unless key_agreement is true'')
            \<and> decipher_only ku =
              Inl (ValueError ''decipher_only is undefined unless key_agreement is true'')))"
  by (auto simp: KeyUsage_init_def encipher_only_def decipher_only_def)

theorem KeyUsage_construction_and_accessors_witness:
  "KeyUsage_init (PyBool True) (PyBool False) (PyBool False) (PyBool False) (PyBool False)
      (PyBool False) (PyBool False) (PyBool True) (PyBool False) =
     Inl (ValueError
       ''encipher_only and decipher_only can only be true when key_agreement is true'')
   \<and> (\<exists>ku. KeyUsage_init (PyBool True) (PyBool False) (PyBool False) (PyBool False)
              (PyBool True) (PyBool False) (PyBool False) (PyBool True) (PyBool False) = Inr ku
            \<and> encipher_only ku = Inr (PyBool True) \<and> decipher_only ku = Inr (PyBool False))
   \<and> (\<exists>ku. KeyUsage_init (PyBool True) (PyBool False) (PyBool False) (PyBool False)
              (PyBool False) (PyBool False) (PyBool False) (PyBool False) (PyBool False) = Inr ku
            \<and> encipher_only ku =
              Inl (ValueError ''encipher_only is undefined unless key_agreement is true'')
            \<and> decipher_only ku =
              Inl (ValueError ''decipher_only is undefined unless key_agreement is true''))"
proof -
  let ?T = "PyBool True" and ?F = "PyBool False"
  have a: "KeyUsage_init ?T ?F ?F ?F ?F ?F ?F ?T ?F =
     Inl (ValueError
       ''encipher_only and decipher_only can only be true when key_agreement is true'')"
    using KeyUsage_construction_and_accessors [of ?F ?T ?F ?T ?F ?F ?F ?F ?F]
    by simp
  have b: "\<exists>ku. KeyUsage_init ?T ?F ?F ?F ?T ?F ?F ?T ?F = Inr ku
            \<and> encipher_only ku = Inr ?T \<and> decipher_only ku = Inr ?F"
    using KeyUsage_construction_and_accessors [of ?T ?T ?F ?T ?F ?F ?F ?F ?F]
    by simp
  have ok: "\<exists>ku. KeyUsage_init ?T ?F ?F ?F ?F ?F ?F ?F ?F = Inr ku"
    by (simp add: KeyUsage_init_def)
  have nk: "\<not> py_truth ?F" by simp
  have c: "\<exists>ku. KeyUsage_init ?T ?F ?F ?F ?F ?F ?F ?F ?F = Inr ku
            \<and> encipher_only ku =
              Inl (ValueError ''encipher_only is undefined unless key_agreement is true'')
            \<and> decipher_only ku =
              Inl (ValueError ''decipher_only is undefined unless key_agreement is true'')"
    using ok nk KeyUsage_construction_and_accessors [of ?F ?F ?F ?T ?F ?F ?F ?F ?F]
    by blast
  from a b c show ?thesis by blast
qed

text \<open>
  The constructor stores what it is given. With \<open>None\<close> for \<open>encipher_only\<close> and
  \<open>decipher_only\<close> and \<open>key_agreement\<close> False, construction succeeds and the private fields
  hold \<open>None\<close>, not False. Every property of this instance reads as on the instance built
  with False in their place (both guarded properties raise), yet \<open>__eq__\<close> tells the
  two apart.
\<close>

theorem KeyUsage_None_counterexample:
  "KeyUsage_init (PyBool False) (PyBool False) (PyBool False) (PyBool False) (PyBool False)
      (PyBool False) (PyBool False) PyNone PyNone =
     Inr \<lparr> digital_signature = PyBool False, content_commitment = PyBool False,
           key_encipherment = PyBool False, data_encipherment = PyBool False,
           key_agreement = PyBool False, key_cert_sign = PyBool False,
           crl_sign = PyBool False, stored_encipher_only = PyNone,
           stored_decipher_only = PyNone \<rparr>
   \<and> KeyUsage_init (PyBool False) (PyBool False) (PyBool False) (PyBool False) (PyBool False)
      (PyBool False) (PyBool False) (PyBool False) (PyBool False) =
     Inr \<lparr> digital_signature = PyBool False, content_commitment = PyBool False,
           key_encipherment = PyBool False, data_encipherment = PyBool False,
           key_agreement = PyBool False, key_cert_sign = PyBool False,
           crl_sign = PyBool False, stored_encipher_only = PyBool False,
           stored_decipher_only = PyBool False \<rparr>
   \<and> observable
       \<lparr> digital_signature = PyBool False, content_commitment = PyBool False,
         key_encipherment = PyBool False, data_encipherment = PyBool False,
         key_agreement = PyBool False, key_cert_sign = PyBool False,
         crl_sign = PyBool False, stored_encipher_only = PyNone,
         stored_decipher_only = PyNone \<rparr>
     = observable
       \<lparr> digital_signature = PyBool False, content_commitment = PyBool False,
         key_encipherment = PyBool False, data_encipherment = PyBool False,
         key_agreement = PyBool False, key_cert_sign = PyBool False,
         crl_sign = PyBool False, stored_encipher_only = PyBool False,
         stored_decipher_only = PyBool False \<rparr>
   \<and> \<not> KeyUsage_eq
       \<lparr> digital_signature = PyBool False, content_commitment = PyBool False,
         key_encipherment = PyBool False, data_encipherment = PyBool False,
         key_agreement = PyBool False, key_cert_sign = PyBool False,
         crl_sign = PyBool False, stored_encipher_only = PyNone,
         stored_decipher_only = PyNone \<rparr>
       \<lparr> digital_signature = PyBool False, content_commitment = PyBool False,
         key_encipherment = PyBool False, data_encipherment = PyBool False,
         key_agreement = PyBool False, key_cert_sign = PyBool False,
         crl_sign = PyBool False, stored_encipher_only = PyBool False,
         stored_decipher_only = PyBool False \<rparr>"
  by (simp add: KeyUsage_init_def observable_def encipher_only_def decipher_only_def
        KeyUsage_eq_def)

text \<open>
  C10 (as the code has it). Every successfully constructed KeyUsage whose key_agreement
  is false stores values of truth value false in both private fields. When the
  constructor's arguments are booleans, as its signature asks, both fields are False
  then, and on values constructed from booleans the equality operation (which compares
  the private fields) holds exactly when the two values agree on everything the
  properties expose.
\<close>

theorem KeyUsage_invariant_and_eq:
  "(KeyUsage_init ds cc ke de ka kcs cs eo dc = Inr ku \<longrightarrow>
      \<not> py_truth (key_agreement ku) \<longrightarrow>
      \<not> py_truth (stored_encipher_only ku) \<and> \<not> py_truth (stored_decipher_only ku))
   \<and> (KeyUsage_init (PyBool a1) (PyBool a2) (PyBool a3) (PyBool a4) (PyBool a5) (PyBool a6)
         (PyBool a7) (PyBool a8) (PyBool a9) = Inr k
       \<and> KeyUsage_init (PyBool b1) (PyBool b2) (PyBool b3) (PyBool b4) (PyBool b5) (PyBool b6)
         (PyBool b7) (PyBool b8) (PyBool b9) = Inr k' \<longrightarrow>
      (\<not> py_truth (key_agreement k) \<longrightarrow>
         stored_encipher_only k = PyBool False \<and> stored_decipher_only k = PyBool False)
      \<and> (KeyUsage_eq k k' \<longleftrightarrow> observable k = observable k'))"
proof -
  have inv: "KeyUsage_init ds cc ke de ka kcs cs eo dc = Inr ku \<longrightarrow>
      \<not> py_truth (key_agreement ku) \<longrightarrow>
      \<not> py_truth (stored_encipher_only ku) \<and> \<not> py_truth (stored_decipher_only ku)"
    by (auto dest!: KeyUsage_init_Inr)
  have bools: "KeyUsage_init (PyBool a1) (PyBool a2) (PyBool a3) (PyBool a4) (PyBool a5)
         (PyBool a6) (PyBool a7) (PyBool a8) (PyBool a9) = Inr k
       \<and> KeyUsage_init (PyBool b1) (PyBool b2) (PyBool b3) (PyBool b4) (PyBool b5) (PyBool b6)
         (PyBool b7) (PyBool b8) (PyBool b9) = Inr k' \<longrightarrow>
      (\<not> py_truth (key_agreement k) \<longrightarrow>
         stored_encipher_only k = PyBool False \<and> stored_decipher_only k = PyBool False)
      \<and> (KeyUsage_eq k k' \<longleftrightarrow> observable k = observable k')"
  proof
    assume h: "KeyUsage_init (PyBool a1) (PyBool a2) (PyBool a3) (PyBool a4) (PyBool a5)
         (PyBool a6) (PyBool a7) (PyBool a8) (PyBool a9) = Inr k
       \<and> KeyUsage_init (PyBool b1) (PyBool b2) (PyBool b3) (PyBool b4) (PyBool b5) (PyBool b6)
         (PyBool b7) (PyBool b8) (PyBool b9) = Inr k'"
    from h have k: "k = \<lparr> digital_signature = PyBool a1, content_commitment = PyBool a2,
        key_encipherment = PyBool a3, data_encipherment = PyBool a4,
        key_agreement = PyBool a5, key_cert_sign = PyBool a6, crl_sign = PyBool a7,
        stored_encipher_only = PyBool a8, stored_decipher_only = PyBool a9 \<rparr>"
      and i: "a5 \<or> (\<not> a8 \<and> \<not> a9)"
      by (auto dest!: KeyUsage_init_Inr)
    from h have k': "k' = \<lparr> digital_signature = PyBool b1, content_commitment = PyBool b2,
        key_encipherment = PyBool b3, data_encipherment = PyBool b4,
        key_agreement = PyBool b5, key_cert_sign = PyBool b6, crl_sign = PyBool b7,
        stored_encipher_only = PyBool b8, stored_decipher_only = PyBool b9 \<rparr>"
      and i': "b5 \<or> (\<not> b8 \<and> \<not> b9)"
      by (auto dest!: KeyUsage_init_Inr)
    have f: "\<not> py_truth (key_agreement k) \<longrightarrow>
         stored_encipher_only k = PyBool False \<and> stored_decipher_only k = PyBool False"
      using i by (auto simp: k)
    have e: "KeyUsage_eq k k' \<longleftrightarrow> observable k = observable k'"
      using i i'
      by (auto simp: k k' KeyUsage_eq_def observable_def encipher_only_def decipher_only_def)
    from f e show "(\<not> py_truth (key_agreement k) \<longrightarrow>
         stored_encipher_only k = PyBool False \<and> stored_decipher_only k = PyBool False)
      \<and> (KeyUsage_eq k k' \<longleftrightarrow> observable k = observable k')"
      by simp
  qed
  from inv bools show ?thesis by simp
qed

theorem KeyUsage_invariant_and_eq_witness:
  "\<exists>ku k k'.
     KeyUsage_init (PyBool True) (PyBool False) (PyBool False) (PyBool False) PyNone
       (PyBool True) (PyBool True) (PyInt 0) PyNone = Inr ku
     \<and> \<not> py_truth (stored_encipher_only ku) \<and> \<not> py_truth (stored_decipher_only ku)
     \<and> KeyUsage_init (PyBool True) (PyBool False) (PyBool False) (PyBool False) (PyBool False)
       (PyBool True) (PyBool True) (PyBool False) (PyBool False) = Inr k
     \<and> KeyUsage_init (PyBool True) (PyBool False) (PyBool False) (PyBool False) (PyBool True)
       (PyBool True) (PyBool True) (PyBool False) (PyBool True) = Inr k'
     \<and> stored_encipher_only k = PyBool False \<and> stored_decipher_only k = PyBool False
     \<and> (KeyUsage_eq k k' \<longleftrightarrow> observable k = observable k')"
proof -
  let ?T = "PyBool True" and ?F = "PyBool False"
  obtain ku where a: "KeyUsage_init ?T ?F ?F ?F PyNone ?T ?T (PyInt 0) PyNone = Inr ku"
    by (simp add: KeyUsage_init_def)
  obtain k where b: "KeyUsage_init ?T ?F ?F ?F ?F ?T ?T ?F ?F = Inr k"
    by (simp add: KeyUsage_init_def)
  obtain k' where c: "KeyUsage_init ?T ?F ?F ?F ?T ?T ?T ?F ?T = Inr k'"
    by (simp add: KeyUsage_init_def)
  have ka: "\<not> py_truth (key_agreement ku)"
    using a by (auto simp: KeyUsage_init_def)
  have kb: "\<not> py_truth (key_agreement k)"
    using b by (auto simp: KeyUsage_init_def)
  from KeyUsage_invariant_and_eq
    [of ?T ?F ?F ?F PyNone ?T ?T "PyInt 0" PyNone ku
        True False False False False True True False False k
        True False False False True True True False True k']
    a b c ka kb
  show ?thesis by blast
qed

subsection \<open>Lookups in the Extensions container\<close>

text \<open>
  C3. Looking up the class UnrecognizedExtension with get_extension_for_class fails with
  the TypeError of the guard, for every container, whatever it contains and whatever the
  identifiers of the classes are; in particular never with ExtensionNotFound.
\<close>

theorem get_extension_for_class_UnrecognizedExtension:
  "get_extension_for_class class_oid self class_UnrecognizedExtension =
     Inl (TypeError
       ''UnrecognizedExtension can't be used with get_extension_for_class because more than one instance of the class may be present.'')
   \<and> get_extension_for_class class_oid self class_UnrecognizedExtension
        \<noteq> Inl (ExtensionNotFound i)"
  by (simp add: get_extension_for_class_def)

lemma for_oid_loop_no_match:
  "(\<forall>e\<in>set exts. oid e \<noteq> i) \<Longrightarrow> for_oid_loop exts i = Inl (ExtensionNotFound i)"
  by (induction exts) simp_all

lemma for_oid_loop_first_match:
  "\<exists>e\<in>set exts. oid e = i \<Longrightarrow>
     \<exists>k<length exts. for_oid_loop exts i = Inr (exts ! k) \<and> oid (exts ! k) = i
        \<and> (\<forall>j<k. oid (exts ! j) \<noteq> i)"
proof (induction exts)
  case Nil
  then show ?case by simp
next
  case (Cons a exts)
  show ?case
  proof (cases "oid a = i")
    case True
    then have "for_oid_loop (a # exts) i = Inr ((a # exts) ! 0) \<and> oid ((a # exts) ! 0) = i
        \<and> (\<forall>j<0. oid ((a # exts) ! j) \<noteq> i)"
      by simp
    then show ?thesis by blast
  next
    case False
    with Cons.prems have "\<exists>e\<in>set exts. oid e = i" by auto
    from Cons.IH [OF this] obtain k where k: "k < length exts"
      "for_oid_loop exts i = Inr (exts ! k)" "oid (exts ! k) = i"
      "\<forall>j<k. oid (exts ! j) \<noteq> i"
      by blast
    have "\<forall>j<Suc k. oid ((a # exts) ! j) \<noteq> i"
    proof (intro allI impI)
      fix j assume "j < Suc k"
      then show "oid ((a # exts) ! j) \<noteq> i"
        using False k(4) by (cases j) simp_all
    qed
    with k False have "Suc k < length (a # exts) \<and>
        for_oid_loop (a # exts) i = Inr ((a # exts) ! Suc k) \<and> oid ((a # exts) ! Suc k) = i
        \<and> (\<forall>j<Suc k. oid ((a # exts) ! j) \<noteq> i)"
      by simp
    then show ?thesis by blast
  qed
qed

text \<open>
  C4. When at least one contained extension has the identifier sought,
  get_extension_for_oid returns the extension at the least position whose oid equals it;
  when none has (the empty container included), it fails with ExtensionNotFound carrying
  the identifier sought.
\<close>

theorem get_extension_for_oid_first_match:
  "((\<exists>e\<in>set exts. oid e = i) \<longrightarrow>
      (\<exists>k<length exts. get_extension_for_oid (Extensions exts) i = Inr (exts ! k)
          \<and> oid (exts ! k) = i \<and> (\<forall>j<k. oid (exts ! j) \<noteq> i)))
   \<and> ((\<forall>e\<in>set exts. oid e \<noteq> i) \<longrightarrow>
      get_extension_for_oid (Extensions exts) i = Inl (ExtensionNotFound i))"
  by (simp add: get_extension_for_oid_def for_oid_loop_no_match for_oid_loop_first_match)

theorem get_extension_for_oid_first_match_witness:
  "get_extension_for_oid
     (Extensions
       [\<lparr> oid = ObjectIdentifier ''2.5.29.15'', critical = True,
           ext_value = ExtensionType class_KeyUsage () \<rparr>,
        \<lparr> oid = ObjectIdentifier ''2.5.29.19'', critical = True,
           ext_value = ExtensionType class_BasicConstraints () \<rparr>,
        \<lparr> oid = ObjectIdentifier ''2.5.29.19'', critical = False,
           ext_value = ExtensionType class_UnrecognizedExtension () \<rparr>])
     (ObjectIdentifier ''2.5.29.19'')
   = Inr \<lparr> oid = ObjectIdentifier ''2.5.29.19'', critical = True,
           ext_value = ExtensionType class_BasicConstraints () \<rparr>
   \<and> get_extension_for_oid (Extensions ([] :: unit Extension list))
        (ObjectIdentifier ''2.5.29.19'')
      = Inl (ExtensionNotFound (ObjectIdentifier ''2.5.29.19''))
   \<and> get_extension_for_oid
        (Extensions
          [\<lparr> oid = ObjectIdentifier ''2.5.29.15'', critical = True,
              ext_value = ExtensionType class_KeyUsage () \<rparr>])
        (ObjectIdentifier ''2.5.29.19'')
      = Inl (ExtensionNotFound (ObjectIdentifier ''2.5.29.19''))"
proof -
  let ?ku = "\<lparr> oid = ObjectIdentifier ''2.5.29.15'', critical = True,
           ext_value = ExtensionType class_KeyUsage () \<rparr>"
  let ?bc = "\<lparr> oid = ObjectIdentifier ''2.5.29.19'', critical = True,
           ext_value = ExtensionType class_BasicConstraints () \<rparr>"
  let ?un = "\<lparr> oid = ObjectIdentifier ''2.5.29.19'', critical = False,
           ext_value = ExtensionType class_UnrecognizedExtension () \<rparr>"
  let ?i = "ObjectIdentifier ''2.5.29.19''"
  have m: "\<exists>e\<in>set [?ku, ?bc, ?un]. oid e = ?i" by simp
  with get_extension_for_oid_first_match [of "[?ku, ?bc, ?un]" ?i]
  obtain k where k: "k < length [?ku, ?bc, ?un]"
      "get_extension_for_oid (Extensions [?ku, ?bc, ?un]) ?i = Inr ([?ku, ?bc, ?un] ! k)"
      "oid ([?ku, ?bc, ?un] ! k) = ?i" "\<forall>j<k. oid ([?ku, ?bc, ?un] ! j) \<noteq> ?i"
    by blast
  have "k = 1"
  proof -
    from k(1) have "k = 0 \<or> k = 1 \<or> k = 2" by auto
    moreover from k(3) have "k \<noteq> 0" by (auto intro: ccontr)
    moreover from k(4) have "k \<noteq> 2" by (auto dest: spec [of _ 1])
    ultimately show ?thesis by blast
  qed
  with k(2) have a: "get_extension_for_oid (Extensions [?ku, ?bc, ?un]) ?i = Inr ?bc"
    by simp
  have b: "get_extension_for_oid (Extensions ([] :: unit Extension list)) ?i
      = Inl (ExtensionNotFound ?i)"
    using get_extension_for_oid_first_match [of "[] :: unit Extension list" ?i] by simp
  have c: "get_extension_for_oid (Extensions [?ku]) ?i = Inl (ExtensionNotFound ?i)"
    using get_extension_for_oid_first_match [of "[?ku]" ?i] by simp
  from a b c show ?thesis by simp
qed

subsection \<open>GeneralNames\<close>

text \<open>
  C5. For every GeneralNames sequence and every variant type, get_values_for_type
  returns, in the original order, one item for each element of that variant and nothing
  else: the element's payload, or the whole element when the type is OtherName. Hence it
  distributes over concatenation, and it is the empty list when no element matches.
\<close>

theorem get_values_for_type_projection:
  "get_values_for_type (GeneralNames xs) V =
     map (\<lambda>g. if V = class_OtherName then Element g else Payload (gn_value g))
       (filter (\<lambda>g. gn_class_of g = V) xs)
   \<and> get_values_for_type (GeneralNames (xs @ ys)) V =
       get_values_for_type (GeneralNames xs) V @ get_values_for_type (GeneralNames ys) V
   \<and> ((\<forall>g\<in>set xs. gn_class_of g \<noteq> V) \<longrightarrow> get_values_for_type (GeneralNames xs) V = [])"
proof -
  have a: "\<And>zs. get_values_for_type (GeneralNames zs) V =
     map (\<lambda>g. if V = class_OtherName then Element g else Payload (gn_value g))
       (filter (\<lambda>g. gn_class_of g = V) zs)"
    by (simp add: get_values_for_type_def Let_def)
  have c: "(\<forall>g\<in>set xs. gn_class_of g \<noteq> V) \<longrightarrow> filter (\<lambda>g. gn_class_of g = V) xs = []"
    by (induction xs) simp_all
  show ?thesis
    using c by (simp add: a)
qed

theorem get_values_for_type_projection_witness:
  "get_values_for_type
     (GeneralNames [DNSName ''a.example'', OtherName (ObjectIdentifier ''1.2.3'') [1, 2],
        IPAddress (IPv4Network 0 8), DNSName ''b.example'',
        (OtherName (ObjectIdentifier ''1.2.4'') [] :: unit GeneralName)])
     class_DNSName
   = [Payload (StrValue ''a.example''), Payload (StrValue ''b.example'')]
   \<and> get_values_for_type
     (GeneralNames [DNSName ''a.example'', OtherName (ObjectIdentifier ''1.2.3'') [1, 2],
        IPAddress (IPv4Network 0 8), DNSName ''b.example'',
        (OtherName (ObjectIdentifier ''1.2.4'') [] :: unit GeneralName)])
     class_OtherName
   = [Element (OtherName (ObjectIdentifier ''1.2.3'') [1, 2]),
      Element (OtherName (ObjectIdentifier ''1.2.4'') [])]
   \<and> get_values_for_type
     (GeneralNames [DNSName ''a.example'', (IPAddress (IPv4Network 0 8) :: unit GeneralName)])
     class_RFC822Name
   = []"
proof -
  let ?xs = "[DNSName ''a.example'', OtherName (ObjectIdentifier ''1.2.3'') [1, 2],
        IPAddress (IPv4Network 0 8), DNSName ''b.example'',
        (OtherName (ObjectIdentifier ''1.2.4'') [] :: unit GeneralName)]"
  let ?ys = "[DNSName ''a.example'', (IPAddress (IPv4Network 0 8) :: unit GeneralName)]"
  have a: "get_values_for_type (GeneralNames ?xs) class_DNSName
      = [Payload (StrValue ''a.example''), Payload (StrValue ''b.example'')]"
    using get_values_for_type_projection [of ?xs class_DNSName "[]"] by simp
  have b: "get_values_for_type (GeneralNames ?xs) class_OtherName
      = [Element (OtherName (ObjectIdentifier ''1.2.3'') [1, 2]),
         Element (OtherName (ObjectIdentifier ''1.2.4'') [])]"
    using get_values_for_type_projection [of ?xs class_OtherName "[]"] by simp
  have c: "get_values_for_type (GeneralNames ?ys) class_RFC822Name = []"
    using get_values_for_type_projection [of ?ys class_RFC822Name "[]"] by simp
  from a b c show ?thesis by simp
qed

subsection \<open>TLSFeature\<close>

lemma list_all_isinstance_map_Inst: "list_all isinstance (map Inst xs)"
  by (induction xs) simp_all

lemma instances_map_Inst: "instances (map Inst xs) = xs"
  by (induction xs) simp_all

text \<open>
  An empty feature list is rejected by the same \<open>raise TypeError\<close> as a list with an
  element of the wrong class: the outcome is not a ValueError, and it is equal to the
  outcome for a wrongly typed element.
\<close>

theorem TLSFeature_empty_counterexample:
  "TLSFeature_init [] =
     Inl (TypeError ''features must be a list of elements from the TLSFeatureType enum'')
   \<and> \<not> is_ValueError (TLSFeature_init [])
   \<and> TLSFeature_init [] = TLSFeature_init [Foreign True]"
  by (simp add: TLSFeature_init_def)

text \<open>
  C8 (as the code has it). Construction with an empty feature list fails with a
  TypeError, the very error raised when some element is not a TLSFeatureType; construction
  with a non-empty list of TLSFeatureType elements succeeds and stores the list.
\<close>

theorem TLSFeature_construction:
  "TLSFeature_init [] =
     Inl (TypeError ''features must be a list of elements from the TLSFeatureType enum'')
   \<and> TLSFeature_init (ys @ Foreign t # zs) =
     Inl (TypeError ''features must be a list of elements from the TLSFeatureType enum'')
   \<and> (fs \<noteq> [] \<longrightarrow> TLSFeature_init (map Inst fs) = Inr \<lparr> features = fs \<rparr>)"
  by (simp add: TLSFeature_init_def list_all_isinstance_map_Inst instances_map_Inst)

theorem TLSFeature_construction_witness:
  "TLSFeature_init [] =
     Inl (TypeError ''features must be a list of elements from the TLSFeatureType enum'')
   \<and> TLSFeature_init [Inst status_request, Foreign True] =
     Inl (TypeError ''features must be a list of elements from the TLSFeatureType enum'')
   \<and> TLSFeature_init [Inst status_request, Inst status_request_v2] =
     Inr \<lparr> features = [status_request, status_request_v2] \<rparr>"
  using TLSFeature_construction [of "[Inst status_request]" True "[]"
      "[status_request, status_request_v2]"]
  by simp

subsection \<open>DistributionPoint\<close>

text \<open>
  The first guard is \<open>if full_name and relative_name\<close>: it tests truth values, and an
  empty list is false. With \<open>full_name = []\<close> and a relative name, neither argument
  is \<open>None\<close>, yet the constructor returns an object.
\<close>

theorem DistributionPoint_empty_full_name_counterexample:
  "DistributionPoint_init (\<lambda>r::unit. True) (Some ([] :: unit GeneralName dyn list))
      (Some (Inst ())) None None =
     Inr \<lparr> dp_full_name = Some [], dp_relative_name = Some (Inst ()), dp_reasons = None,
           dp_crl_issuer = None \<rparr>
   \<and> \<not> is_ValueError
        (DistributionPoint_init (\<lambda>r::unit. True) (Some ([] :: unit GeneralName dyn list))
           (Some (Inst ())) None None)"
  by (simp add: DistributionPoint_init_def nonempty_def)

text \<open>
  C2 (as the code has it). Whenever full_name is a non-empty list and relative_name is a
  value that Python counts as true, construction of a DistributionPoint fails with the
  ValueError of the first guard, whatever the other arguments are.
\<close>

theorem DistributionPoint_both_names:
  "truth rdn_bool rn \<Longrightarrow>
     DistributionPoint_init rdn_bool (Some (x # xs)) (Some rn) reasons crl_issuer =
       Inl (ValueError
         ''You cannot provide both full_name and relative_name, at least one must be None.'')"
  by (simp add: DistributionPoint_init_def nonempty_def)

theorem DistributionPoint_both_names_witness:
  "truth (\<lambda>r::unit. True) (Inst ())
   \<and> DistributionPoint_init (\<lambda>r::unit. True)
        (Some [Inst (DNSName ''example.com'' :: unit GeneralName)]) (Some (Inst ()))
        (Some (Inst {Inst key_compromise})) None =
       Inl (ValueError
         ''You cannot provide both full_name and relative_name, at least one must be None.'')"
proof -
  have t: "truth (\<lambda>r::unit. True) (Inst ())" by simp
  from DistributionPoint_both_names
    [OF t, of "Inst (DNSName ''example.com'' :: unit GeneralName)" "[]"
       "Some (Inst {Inst key_compromise})" None] t
  show ?thesis by simp
qed

text \<open>
  C9. With reasons the empty frozenset and the three other arguments None, construction
  of a DistributionPoint succeeds. More generally an empty reason set passes every check
  that None passes, and the result differs only in the stored reasons; the checks on the
  reason set do fire for non-empty sets.
\<close>

theorem DistributionPoint_empty_reasons:
  fixes full_name crl_issuer :: "'n GeneralName dyn list option"
    and relative_name :: "'r dyn option"
  shows
  "DistributionPoint_init rdn_bool (None :: 'n GeneralName dyn list option) None
      (Some (Inst {})) None =
     Inr \<lparr> dp_full_name = None, dp_relative_name = None, dp_reasons = Some (Inst {}),
           dp_crl_issuer = None \<rparr>
   \<and> DistributionPoint_init rdn_bool full_name relative_name (Some (Inst {})) crl_issuer =
       map_sum id (\<lambda>d. d\<lparr> dp_reasons := Some (Inst {}) \<rparr>)
         (DistributionPoint_init rdn_bool full_name relative_name None crl_issuer)
   \<and> DistributionPoint_init rdn_bool (None :: 'n GeneralName dyn list option) None
        (Some (Inst {Inst unspecified})) None =
       Inl (ValueError
         ''unspecified and remove_from_crl are not valid reasons in a DistributionPoint'')
   \<and> DistributionPoint_init rdn_bool (None :: 'n GeneralName dyn list option) None
        (Some (Inst {Inst key_compromise})) None =
       Inl (ValueError
         ''You must supply crl_issuer, full_name, or relative_name when reasons is not None'')"
  by (simp add: DistributionPoint_init_def nonempty_def)

theorem DistributionPoint_empty_reasons_witness:
  "DistributionPoint_init (\<lambda>r::unit. True) None None (Some (Inst {})) None =
     Inr \<lparr> dp_full_name = (None :: unit GeneralName list option), dp_relative_name = None,
           dp_reasons = Some (Inst {}), dp_crl_issuer = None \<rparr>
   \<and> DistributionPoint_init (\<lambda>r::unit. True)
        (Some [Inst (DNSName ''example.com'' :: unit GeneralName)]) None (Some (Inst {})) None =
     Inr \<lparr> dp_full_name = Some [DNSName ''example.com''], dp_relative_name = None,
           dp_reasons = Some (Inst {}), dp_crl_issuer = None \<rparr>"
proof -
  have a: "DistributionPoint_init (\<lambda>r::unit. True)
        (Some [Inst (DNSName ''example.com'' :: unit GeneralName)]) None None None =
     Inr \<lparr> dp_full_name = Some [DNSName ''example.com''], dp_relative_name = None,
           dp_reasons = None, dp_crl_issuer = None \<rparr>"
    by (simp add: DistributionPoint_init_def nonempty_def)
  from DistributionPoint_empty_reasons
    [of "\<lambda>r::unit. True" "Some [Inst (DNSName ''example.com'' :: unit GeneralName)]" None None]
  show ?thesis by (simp add: a)
qed

subsection \<open>IssuingDistributionPoint\<close>

text \<open>
  C6. Construction of an IssuingDistributionPoint fails with the "empty extension"
  ValueError when the four flags are False and full_name, relative_name and
  only_some_reasons are None; it fails whenever more than one of the four flags is True
  (with the "only one" ValueError, unless one of the two earlier checks on
  only_some_reasons has already raised); and it succeeds when exactly one flag is True and
  the three other arguments are None.
\<close>

theorem IssuingDistributionPoint_flags:
  fixes full_name :: "'n GeneralName dyn list option"
    and relative_name :: "'r dyn option"
  shows
  "IssuingDistributionPoint_init rdn_bool (None :: 'n GeneralName dyn list option) None
      (Inst False) (Inst False) None (Inst False) (Inst False) =
     Inl (ValueError
       ''Cannot create empty extension: if only_contains_user_certs, only_contains_ca_certs, indirect_crl, and only_contains_attribute_certs are all False, then either full_name, relative_name, or only_some_reasons must have a value.'')
   \<and> (1 < length (filter id [u, c, i, a]) \<longrightarrow>
        IssuingDistributionPoint_init rdn_bool full_name relative_name (Inst u) (Inst c)
            reasons (Inst i) (Inst a)
          \<in> {Inl (TypeError ''only_some_reasons must be None or frozenset of ReasonFlags''),
              Inl (ValueError
                ''unspecified and remove_from_crl are not valid reasons in an IssuingDistributionPoint''),
              Inl (ValueError
                ''Only one of the following can be set to True: only_contains_user_certs, only_contains_ca_certs, indirect_crl, only_contains_attribute_certs'')})
   \<and> (length (filter id [u, c, i, a]) = 1 \<longrightarrow>
        IssuingDistributionPoint_init rdn_bool (None :: 'n GeneralName dyn list option) None
            (Inst u) (Inst c) None (Inst i) (Inst a) =
          Inr \<lparr> only_contains_user_certs = Inst u, only_contains_ca_certs = Inst c,
                indirect_crl = Inst i, only_contains_attribute_certs = Inst a,
                only_some_reasons = None, idp_full_name = None, idp_relative_name = None \<rparr>)"
proof -
  have e: "IssuingDistributionPoint_init rdn_bool (None :: 'n GeneralName dyn list option) None
      (Inst False) (Inst False) None (Inst False) (Inst False) =
     Inl (ValueError
       ''Cannot create empty extension: if only_contains_user_certs, only_contains_ca_certs, indirect_crl, and only_contains_attribute_certs are all False, then either full_name, relative_name, or only_some_reasons must have a value.'')"
    by (simp add: IssuingDistributionPoint_init_def Let_def)
  have m: "1 < length (filter id [u, c, i, a]) \<longrightarrow>
        IssuingDistributionPoint_init rdn_bool full_name relative_name (Inst u) (Inst c)
            reasons (Inst i) (Inst a)
          \<in> {Inl (TypeError ''only_some_reasons must be None or frozenset of ReasonFlags''),
              Inl (ValueError
                ''unspecified and remove_from_crl are not valid reasons in an IssuingDistributionPoint''),
              Inl (ValueError
                ''Only one of the following can be set to True: only_contains_user_certs, only_contains_ca_certs, indirect_crl, only_contains_attribute_certs'')}"
    by (simp add: IssuingDistributionPoint_init_def Let_def)
  have s: "length (filter id [u, c, i, a]) = 1 \<longrightarrow>
        IssuingDistributionPoint_init rdn_bool (None :: 'n GeneralName dyn list option) None
            (Inst u) (Inst c) None (Inst i) (Inst a) =
          Inr \<lparr> only_contains_user_certs = Inst u, only_contains_ca_certs = Inst c,
                indirect_crl = Inst i, only_contains_attribute_certs = Inst a,
                only_some_reasons = None, idp_full_name = None, idp_relative_name = None \<rparr>"
    by (cases u; cases c; cases i; cases a)
       (simp_all add: IssuingDistributionPoint_init_def Let_def)
  from e m s show ?thesis by blast
qed

theorem IssuingDistributionPoint_flags_witness:
  "IssuingDistributionPoint_init (\<lambda>r::unit. True)
      (Some [Inst (DNSName ''example.com'' :: unit GeneralName)]) None
      (Inst True) (Inst False) None (Inst True) (Inst False) =
     Inl (ValueError
       ''Only one of the following can be set to True: only_contains_user_certs, only_contains_ca_certs, indirect_crl, only_contains_attribute_certs'')
   \<and> IssuingDistributionPoint_init (\<lambda>r::unit. True) None None
      (Inst False) (Inst False) None (Inst True) (Inst False) =
     Inr \<lparr> only_contains_user_certs = Inst False, only_contains_ca_certs = Inst False,
           indirect_crl = Inst True, only_contains_attribute_certs = Inst False,
           only_some_reasons = None,
           idp_full_name = (None :: unit GeneralName dyn list option),
           idp_relative_name = None \<rparr>"
proof -
  have two: "1 < length (filter id [True, False, True, False])" by simp
  have one: "length (filter id [False, False, True, False]) = 1" by simp
  have nt: "IssuingDistributionPoint_init (\<lambda>r::unit. True)
      (Some [Inst (DNSName ''example.com'' :: unit GeneralName)]) None
      (Inst True) (Inst False) None (Inst True) (Inst False)
      \<noteq> Inl (TypeError ''only_some_reasons must be None or frozenset of ReasonFlags'')"
    by (simp add: IssuingDistributionPoint_init_def Let_def)
  have nv: "IssuingDistributionPoint_init (\<lambda>r::unit. True)
      (Some [Inst (DNSName ''example.com'' :: unit GeneralName)]) None
      (Inst True) (Inst False) None (Inst True) (Inst False)
      \<noteq> Inl (ValueError
        ''unspecified and remove_from_crl are not valid reasons in an IssuingDistributionPoint'')"
    by (simp add: IssuingDistributionPoint_init_def Let_def)
  have a: "IssuingDistributionPoint_init (\<lambda>r::unit. True)
      (Some [Inst (DNSName ''example.com'' :: unit GeneralName)]) None
      (Inst True) (Inst False) None (Inst True) (Inst False) =
     Inl (ValueError
       ''Only one of the following can be set to True: only_contains_user_certs, only_contains_ca_certs, indirect_crl, only_contains_attribute_certs'')"
    using two nt nv
      IssuingDistributionPoint_flags [of "\<lambda>r::unit. True" True False True False
        "Some [Inst (DNSName ''example.com'' :: unit GeneralName)]" None None]
    by blast
  have b: "IssuingDistributionPoint_init (\<lambda>r::unit. True) None None
      (Inst False) (Inst False) None (Inst True) (Inst False) =
     Inr \<lparr> only_contains_user_certs = Inst False, only_contains_ca_certs = Inst False,
           indirect_crl = Inst True, only_contains_attribute_certs = Inst False,
           only_some_reasons = None,
           idp_full_name = (None :: unit GeneralName dyn list option),
           idp_relative_name = None \<rparr>"
    using one
      IssuingDistributionPoint_flags [of "\<lambda>r::unit. True" False False True False
        "None :: unit GeneralName dyn list option" None None]
    by blast
  from a b show ?thesis by simp
qed

subsection \<open>NameConstraints\<close>

lemma bare_ip_name_with_network: "\<not> bare_ip_name (with_network p x)"
  by (induction p x rule: with_network.induct) simp_all

lemma isinstance_with_network: "isinstance (with_network p x) = isinstance x"
  by (induction p x rule: with_network.induct) simp_all

lemma validate_ip_name_with_network: "validate_ip_name (map (with_network p) xs) = None"
  by (simp add: validate_ip_name_def list_ex_iff bare_ip_name_with_network)

lemma list_all_isinstance_with_network:
  "list_all isinstance (map (with_network p) xs) = list_all isinstance xs"
  by (induction xs) (simp_all add: isinstance_with_network)

lemma subtrees_block_with_network:
  "(\<forall>t. subtrees = Some t \<longrightarrow> t \<noteq> [] \<and> list_all isinstance t) \<Longrightarrow>
     subtrees_block m1 m2 (map_option (map (with_network p)) subtrees) = None"
  by (cases subtrees)
     (simp_all add: subtrees_block_def validate_ip_name_with_network
        list_all_isinstance_with_network)

lemma subtrees_block_bare:
  "Inst (IPAddress v) \<in> set t \<Longrightarrow> \<not> is_network v \<Longrightarrow>
     subtrees_block m1 m2 (Some t) \<in>
       {Some (TypeError m2),
        Some (TypeError
          ''IPAddress name constraints must be an IPv4Network or IPv6Network object'')}"
proof -
  assume m: "Inst (IPAddress v) \<in> set t" and n: "\<not> is_network v"
  from m have ne: "t \<noteq> []" by auto
  from m n have "\<exists>x\<in>set t. bare_ip_name x"
    by (intro bexI [of _ "Inst (IPAddress v)"]) simp_all
  then have "list_ex bare_ip_name t" by (simp add: list_ex_iff)
  with ne show ?thesis
    by (simp add: subtrees_block_def validate_ip_name_def)
qed

lemma subtrees_block_cases:
  "subtrees \<noteq> Some [] \<Longrightarrow>
     subtrees_block m1 m2 subtrees \<in>
       {None, Some (TypeError m2),
        Some (TypeError
          ''IPAddress name constraints must be an IPv4Network or IPv6Network object'')}"
  by (cases subtrees) (simp_all add: subtrees_block_def validate_ip_name_def)

text \<open>
  C7. Construction of a NameConstraints fails with a TypeError whenever an element of
  permitted_subtrees or excluded_subtrees is an IPAddress name with a bare address, the
  other invariants holding: the only one that an earlier check enforces is that
  permitted_subtrees, which is validated first, is not an empty list. When each argument
  is None or a non-empty list of general names, and not both are None, the same input
  with every bare address replaced by a network is accepted.
\<close>

theorem NameConstraints_ip_networks:
  fixes permitted excluded :: "'n GeneralName dyn list option"
  shows
  "(Inst (IPAddress v) \<in> set ps \<and> \<not> is_network v \<longrightarrow>
      is_TypeError (NameConstraints_init (Some ps) excluded))
   \<and> (Inst (IPAddress v) \<in> set es \<and> \<not> is_network v \<and> permitted \<noteq> Some [] \<longrightarrow>
      is_TypeError (NameConstraints_init permitted (Some es)))
   \<and> ((permitted \<noteq> None \<or> excluded \<noteq> None)
       \<and> (\<forall>t. permitted = Some t \<longrightarrow> t \<noteq> [] \<and> list_all isinstance t)
       \<and> (\<forall>t. excluded = Some t \<longrightarrow> t \<noteq> [] \<and> list_all isinstance t) \<longrightarrow>
      NameConstraints_init (map_option (map (with_network p)) permitted)
          (map_option (map (with_network p)) excluded) =
        Inr \<lparr> permitted_subtrees =
                map_option (\<lambda>t. instances (map (with_network p) t)) permitted,
              excluded_subtrees =
                map_option (\<lambda>t. instances (map (with_network p) t)) excluded \<rparr>)"
proof -
  have a: "Inst (IPAddress v) \<in> set ps \<and> \<not> is_network v \<longrightarrow>
      is_TypeError (NameConstraints_init (Some ps) excluded)"
  proof
    assume h: "Inst (IPAddress v) \<in> set ps \<and> \<not> is_network v"
    from subtrees_block_bare [of v ps
        "''permitted_subtrees must be a non-empty list or None''"
        "''permitted_subtrees must be a list of GeneralName objects or None''"] h
    show "is_TypeError (NameConstraints_init (Some ps) excluded)"
      by (auto simp: NameConstraints_init_def)
  qed
  have b: "Inst (IPAddress v) \<in> set es \<and> \<not> is_network v \<and> permitted \<noteq> Some [] \<longrightarrow>
      is_TypeError (NameConstraints_init permitted (Some es))"
  proof
    assume h: "Inst (IPAddress v) \<in> set es \<and> \<not> is_network v \<and> permitted \<noteq> Some []"
    from subtrees_block_bare [of v es
        "''excluded_subtrees must be a non-empty list or None''"
        "''excluded_subtrees must be a list of GeneralName objects or None''"]
      subtrees_block_cases [of permitted
        "''permitted_subtrees must be a non-empty list or None''"
        "''permitted_subtrees must be a list of GeneralName objects or None''"] h
    show "is_TypeError (NameConstraints_init permitted (Some es))"
      by (auto simp: NameConstraints_init_def)
  qed
  have d: "(permitted \<noteq> None \<or> excluded \<noteq> None)
       \<and> (\<forall>t. permitted = Some t \<longrightarrow> t \<noteq> [] \<and> list_all isinstance t)
       \<and> (\<forall>t. excluded = Some t \<longrightarrow> t \<noteq> [] \<and> list_all isinstance t) \<longrightarrow>
      NameConstraints_init (map_option (map (with_network p)) permitted)
          (map_option (map (with_network p)) excluded) =
        Inr \<lparr> permitted_subtrees =
                map_option (\<lambda>t. instances (map (with_network p) t)) permitted,
              excluded_subtrees =
                map_option (\<lambda>t. instances (map (with_network p) t)) excluded \<rparr>"
    by (auto simp: NameConstraints_init_def subtrees_block_with_network
          option.map_comp comp_def)
  from a b d show ?thesis by blast
qed

theorem NameConstraints_ip_networks_witness:
  "is_TypeError
     (NameConstraints_init
        (Some [Inst (IPAddress (IPv4Address 3232235776) :: unit GeneralName)]) None)
   \<and> is_TypeError
     (NameConstraints_init (Some [Inst (DNSName ''example.com'')])
        (Some [Inst (IPAddress (IPv6Address 1) :: unit GeneralName)]))
   \<and> is_TypeError
     (NameConstraints_init None
        (Some [Inst (IPAddress (IPv6Address 1) :: unit GeneralName)]))
   \<and> NameConstraints_init
      (Some [Inst (IPAddress (IPv4Network 3232235776 24) :: unit GeneralName)]) None =
     Inr \<lparr> permitted_subtrees = Some [IPAddress (IPv4Network 3232235776 24)],
           excluded_subtrees = None \<rparr>"
proof -
  let ?bare = "Inst (IPAddress (IPv4Address 3232235776) :: unit GeneralName)"
  let ?bare6 = "Inst (IPAddress (IPv6Address 1) :: unit GeneralName)"
  let ?dns = "Inst (DNSName ''example.com'' :: unit GeneralName)"
  have a: "is_TypeError (NameConstraints_init (Some [?bare]) None)"
    using NameConstraints_ip_networks
      [of "IPv4Address 3232235776" "[?bare]" None "[]" None 0]
    by simp
  have b: "is_TypeError (NameConstraints_init (Some [?dns]) (Some [?bare6]))"
    using NameConstraints_ip_networks
      [of "IPv6Address 1" "[]" None "[?bare6]" "Some [?dns]" 0]
    by simp
  have c: "is_TypeError (NameConstraints_init None (Some [?bare6]))"
    using NameConstraints_ip_networks
      [of "IPv6Address 1" "[]" None "[?bare6]" None 0]
    by simp
  have d: "NameConstraints_init
      (Some [Inst (IPAddress (IPv4Network 3232235776 24) :: unit GeneralName)]) None =
     Inr \<lparr> permitted_subtrees = Some [IPAddress (IPv4Network 3232235776 24)],
           excluded_subtrees = None \<rparr>"
    using NameConstraints_ip_networks
      [of "IPv4Address 0" "[]" None "[]" "Some [?bare]" 24]
    by simp
  from a b c d show ?thesis by simp
qed

end
